theory Spec2Isabelle
  imports Main
begin
section \<open>The initialization controller of ee.js\<close>

text \<open>
  The controller is the part of \<^verbatim>\<open>javascript/src/ee.js\<close> made of \<^verbatim>\<open>ee.initialize\<close>,
  \<^verbatim>\<open>ee.reset\<close>, \<^verbatim>\<open>ee.initializationSuccess_\<close> and \<^verbatim>\<open>ee.initializationFailure_\<close>, over the
  module variables \<^verbatim>\<open>ee.ready_\<close>, \<^verbatim>\<open>ee.successCallbacks_\<close> and \<^verbatim>\<open>ee.errorCallbacks_\<close>.

  JavaScript exceptions are values of type \<open>error\<close>; a function that may throw returns, next
  to the new state, \<open>None\<close> when it returns normally and \<open>Some e\<close> when it throws \<open>e\<close>.
\<close>

datatype error = Error string | TypeError string

datatype InitState = NOT_READY | LOADING | READY

text \<open>
  A callback is an opaque JavaScript function, named here by a number. What the code can
  observe of it is that it was invoked and whether the invocation threw; both are recorded.
  A callback is taken not to call back into \<^verbatim>\<open>ee.initialize\<close> or \<^verbatim>\<open>ee.reset\<close>.
\<close>

type_synonym callback = nat

text \<open>
  The statements of the try block of \<^verbatim>\<open>ee.initializationSuccess_\<close>: the \<^verbatim>\<open>initialize()\<close> of
  a hand-written type, \<^verbatim>\<open>ee.initializeGeneratedClasses_()\<close>, \<^verbatim>\<open>ee.initializeUnboundMethods_()\<close>.
\<close>

datatype hook = TypeInitialize string | InitializeGeneratedClasses | InitializeUnboundMethods

text \<open>
  Every call the controller makes to a collaborator or to a callback, in program order.
  \<open>ApiFunctionInitialize True\<close> is \<^verbatim>\<open>ee.ApiFunction.initialize(success, failure)\<close> (the
  asynchronous load), \<open>ApiFunctionInitialize False\<close> is \<^verbatim>\<open>ee.ApiFunction.initialize()\<close>.
\<close>

datatype effect =
    SuccessCallback callback
  | ErrorCallback callback error
  | DataInitialize "string option" "string option"
  | ApiFunctionInitialize bool
  | Hook hook
  | DataReset
  | ApiFunctionReset
  | TypeReset string
  | ResetGeneratedClasses
  | ClearAlgorithms

text \<open>
  The fields \<open>ready\<close>, \<open>successCallbacks\<close> and \<open>errorCallbacks\<close> are \<^verbatim>\<open>ee.ready_\<close>,
  \<^verbatim>\<open>ee.successCallbacks_\<close> and \<^verbatim>\<open>ee.errorCallbacks_\<close>; \<open>trace\<close> is the log of effects.
\<close>

record ee_state =
  ready :: InitState
  successCallbacks :: "callback list"
  errorCallbacks :: "callback list"
  trace :: "effect list"

text \<open>The module as loaded: lines 148, 158 and 168.\<close>

definition initial_state :: ee_state where
  "initial_state =
     \<lparr>ready = NOT_READY, successCallbacks = [], errorCallbacks = [], trace = []\<rparr>"

text \<open>
  What the callbacks do when invoked: \<open>success_raises c\<close> is the exception thrown by
  \<^verbatim>\<open>c()\<close>, \<open>error_raises c e\<close> the one thrown by \<^verbatim>\<open>c(e)\<close>, \<open>None\<close> for a normal return.
\<close>

record callbacks =
  success_raises :: "callback \<Rightarrow> error option"
  error_raises :: "callback \<Rightarrow> error \<Rightarrow> error option"

text \<open>
  \<^verbatim>\<open>!opt_baseurl\<close>: the argument is undefined or null (\<open>None\<close>) or the empty string.
\<close>

definition falsy_url :: "string option \<Rightarrow> bool" where
  "falsy_url u = (u = None \<or> u = Some [])"

text \<open>
  Lines 286-290: \<^verbatim>\<open>while (ee.successCallbacks_.length > 0) ee.successCallbacks_.shift()();\<close>
  The first argument is the content of the queue; \<^verbatim>\<open>shift()\<close> removes the head from the
  queue before the head is invoked, and an exception leaves the loop.
\<close>

fun drain_success :: "callbacks \<Rightarrow> callback list \<Rightarrow> ee_state \<Rightarrow> ee_state \<times> error option" where
  "drain_success cbs [] s = (s\<lparr>successCallbacks := []\<rparr>, None)"
| "drain_success cbs (c # cs) s =
     (let s' = s\<lparr>successCallbacks := cs, trace := trace s @ [SuccessCallback c]\<rparr> in
      case success_raises cbs c of
        Some x \<Rightarrow> (s', Some x)
      | None \<Rightarrow> drain_success cbs cs s')"

text \<open>Lines 312-316, the same loop over \<^verbatim>\<open>ee.errorCallbacks_\<close>, each called with \<open>e\<close>.\<close>

fun drain_error :: "callbacks \<Rightarrow> error \<Rightarrow> callback list \<Rightarrow> ee_state \<Rightarrow> ee_state \<times> error option" where
  "drain_error cbs e [] s = (s\<lparr>errorCallbacks := []\<rparr>, None)"
| "drain_error cbs e (c # cs) s =
     (let s' = s\<lparr>errorCallbacks := cs, trace := trace s @ [ErrorCallback c e]\<rparr> in
      case error_raises cbs c e of
        Some x \<Rightarrow> (s', Some x)
      | None \<Rightarrow> drain_error cbs e cs s')"

text \<open>\<^verbatim>\<open>ee.initializationFailure_\<close>, lines 299-317.\<close>

definition initializationFailure :: "callbacks \<Rightarrow> error \<Rightarrow> ee_state \<Rightarrow> ee_state \<times> error option" where
  "initializationFailure cbs e s =
     (if ready s \<noteq> LOADING then (s, None)
      else drain_error cbs e (errorCallbacks s)
             (s\<lparr>ready := NOT_READY, successCallbacks := []\<rparr>))"

text \<open>
  The try block of lines 259-273. The hooks are code outside this file; \<open>h x\<close> is the
  exception hook \<open>x\<close> throws on this run, \<open>None\<close> when it returns. The first exception
  leaves the block.
\<close>

definition init_hooks :: "hook list" where
  "init_hooks =
     [TypeInitialize ''Image'', TypeInitialize ''Feature'', TypeInitialize ''Collection'',
      TypeInitialize ''ImageCollection'', TypeInitialize ''FeatureCollection'',
      TypeInitialize ''Filter'', TypeInitialize ''Geometry'', TypeInitialize ''Number'',
      TypeInitialize ''String'', InitializeGeneratedClasses, InitializeUnboundMethods]"

fun run_hooks :: "(hook \<Rightarrow> error option) \<Rightarrow> hook list \<Rightarrow> ee_state \<Rightarrow> ee_state \<times> error option" where
  "run_hooks h [] s = (s, None)"
| "run_hooks h (x # xs) s =
     (let s' = s\<lparr>trace := trace s @ [Hook x]\<rparr> in
      case h x of
        Some e \<Rightarrow> (s', Some e)
      | None \<Rightarrow> run_hooks h xs s')"

text \<open>
  \<^verbatim>\<open>ee.initializationSuccess_\<close>, lines 250-291. The catch clause calls the failure handler
  and returns: an exception of a hook does not leave this function (one thrown by an error
  callback inside the failure handler does).
\<close>

definition initializationSuccess ::
  "callbacks \<Rightarrow> (hook \<Rightarrow> error option) \<Rightarrow> ee_state \<Rightarrow> ee_state \<times> error option" where
  "initializationSuccess cbs h s =
     (if ready s \<noteq> LOADING then (s, None)
      else case run_hooks h init_hooks s of
        (s1, Some e) \<Rightarrow> initializationFailure cbs e s1
      | (s1, None) \<Rightarrow>
          drain_success cbs (successCallbacks s1) (s1\<lparr>ready := READY, errorCallbacks := []\<rparr>))"

text \<open>The message of line 68.\<close>

definition usage_error :: error where
  "usage_error =
     Error (''Can'' @ [CHR 0x27] @ ''t pass an error callback without a success callback.'')"

text \<open>
  \<^verbatim>\<open>ee.initialize\<close>, lines 51-96. \<open>load\<close> is the outcome of the synchronous
  \<^verbatim>\<open>ee.ApiFunction.initialize()\<close> of line 89 (\<open>Some e\<close>: it throws \<open>e\<close>), \<open>h\<close> the outcome of the
  hooks, should they run. \<^verbatim>\<open>ee.data.initialize\<close> and the asynchronous
  \<^verbatim>\<open>ee.ApiFunction.initialize(success, failure)\<close> are taken to return; the completion of the
  asynchronous load is a later call of \<open>initializationSuccess\<close> or \<open>initializationFailure\<close>.
  A callback argument is \<open>None\<close> when it is undefined or null.
\<close>

definition initialize ::
  "callbacks \<Rightarrow> error option \<Rightarrow> (hook \<Rightarrow> error option) \<Rightarrow>
   string option \<Rightarrow> string option \<Rightarrow> callback option \<Rightarrow> callback option \<Rightarrow>
   ee_state \<Rightarrow> ee_state \<times> error option" where
  "initialize cbs load h opt_baseurl opt_tileurl opt_successCallback opt_errorCallback s =
     (if ready s = READY \<and> falsy_url opt_baseurl \<and> falsy_url opt_tileurl then
        (case opt_successCallback of
           Some c \<Rightarrow> (s\<lparr>trace := trace s @ [SuccessCallback c]\<rparr>, success_raises cbs c)
         | None \<Rightarrow> (s, None))
      else
        (let isAsynchronous = (opt_successCallback \<noteq> None) in
         if opt_errorCallback \<noteq> None \<and> \<not> isAsynchronous then (s, Some usage_error)
         else
           (let s1 = (case opt_errorCallback of
                        Some ec \<Rightarrow> s\<lparr>errorCallbacks := errorCallbacks s @ [ec]\<rparr>
                      | None \<Rightarrow> s) in
            (case opt_successCallback of
               Some c \<Rightarrow>
                 (if ready s1 = LOADING then
                    (s1\<lparr>successCallbacks := successCallbacks s1 @ [c]\<rparr>, None)
                  else
                    (s1\<lparr>ready := LOADING,
                        successCallbacks := successCallbacks s1 @ [c],
                        trace := trace s1 @ [DataInitialize opt_baseurl opt_tileurl,
                                             ApiFunctionInitialize True]\<rparr>, None))
             | None \<Rightarrow>
                 (let s3 = s1\<lparr>ready := LOADING,
                              trace := trace s1 @ [DataInitialize opt_baseurl opt_tileurl,
                                                   ApiFunctionInitialize False]\<rparr> in
                  (case (case load of
                           Some e \<Rightarrow> (s3, Some e)
                         | None \<Rightarrow> initializationSuccess cbs h s3) of
                     (s4, None) \<Rightarrow> (s4, None)
                   | (s4, Some e) \<Rightarrow>
                       (case initializationFailure cbs e s4 of
                          (s5, None) \<Rightarrow> (s5, Some e)
                        | (s5, Some e') \<Rightarrow> (s5, Some e'))))))))"

text \<open>
  \<^verbatim>\<open>ee.reset\<close>, lines 104-121. The collaborators' \<^verbatim>\<open>reset()\<close> are taken to return. The two
  callback queues are not assigned.
\<close>

definition reset :: "ee_state \<Rightarrow> ee_state" where
  "reset s =
     s\<lparr>ready := NOT_READY,
       trace := trace s @
         [DataReset, ApiFunctionReset, TypeReset ''Image'', TypeReset ''Feature'',
          TypeReset ''Collection'', TypeReset ''ImageCollection'',
          TypeReset ''FeatureCollection'', TypeReset ''Filter'', TypeReset ''Geometry'',
          TypeReset ''Number'', TypeReset ''String'', ResetGeneratedClasses,
          ClearAlgorithms]\<rparr>"

text \<open>\<^verbatim>\<open>ee.ready\<close>, lines 199-201.\<close>

definition ee_ready :: "ee_state \<Rightarrow> InitState" where
  "ee_ready s = ready s"

text \<open>Outcomes used at concrete inputs: no callback throws, no hook throws.\<close>

definition quiet_callbacks :: callbacks where
  "quiet_callbacks = \<lparr>success_raises = (\<lambda>c. None), error_raises = (\<lambda>c e. None)\<rparr>"

definition hooks_ok :: "hook \<Rightarrow> error option" where
  "hooks_ok x = None"

subsection \<open>Sequences of calls\<close>

text \<open>
  The calls that reach the controller: the three exported or internal entry points and
  the two completions of an asynchronous load, which the transport delivers later by
  calling \<^verbatim>\<open>ee.initializationSuccess_\<close> or \<^verbatim>\<open>ee.initializationFailure_\<close>. An exception
  ends the call that threw it; the state it leaves is the state the next call finds.
\<close>

datatype op =
    Initialize "error option" "hook \<Rightarrow> error option" "string option" "string option"
      "callback option" "callback option"
  | Reset
  | LoadSucceeded "hook \<Rightarrow> error option"
  | LoadFailed error

fun step :: "callbacks \<Rightarrow> ee_state \<Rightarrow> op \<Rightarrow> ee_state" where
  "step cbs s (Initialize load h b t sc ec) = fst (initialize cbs load h b t sc ec s)"
| "step cbs s Reset = reset s"
| "step cbs s (LoadSucceeded h) = fst (initializationSuccess cbs h s)"
| "step cbs s (LoadFailed e) = fst (initializationFailure cbs e s)"

fun run :: "callbacks \<Rightarrow> ee_state \<Rightarrow> op list \<Rightarrow> ee_state" where
  "run cbs s [] = s"
| "run cbs s (x # xs) = run cbs (step cbs s x) xs"

text \<open>Every \<^verbatim>\<open>ee.reset()\<close> of the sequence is called in a state other than LOADING.\<close>

fun resets_outside_loading :: "callbacks \<Rightarrow> ee_state \<Rightarrow> op list \<Rightarrow> bool" where
  "resets_outside_loading cbs s [] = True"
| "resets_outside_loading cbs s (x # xs) =
     ((case x of Reset \<Rightarrow> ready s \<noteq> LOADING | _ \<Rightarrow> True) \<and>
      resets_outside_loading cbs (step cbs s x) xs)"

text \<open>The invariant of the two queues.\<close>

definition queues_empty_when_settled :: "ee_state \<Rightarrow> bool" where
  "queues_empty_when_settled s =
     (ready s = NOT_READY \<or> ready s = READY \<longrightarrow>
        successCallbacks s = [] \<and> errorCallbacks s = [])"

definition never_raise :: "callbacks \<Rightarrow> bool" where
  "never_raise cbs =
     ((\<forall>c. success_raises cbs c = None) \<and> (\<forall>c e. error_raises cbs c e = None))"




text \<open>A run of the hooks in which \<^verbatim>\<open>ee.Image.initialize()\<close> throws \<open>e\<close>.\<close>

definition image_hook_raises :: "error \<Rightarrow> hook \<Rightarrow> error option" where
  "image_hook_raises e x = (if x = TypeInitialize ''Image'' then Some e else None)"

text \<open>
  Two reachable states: \<open>loading_state\<close> after \<^verbatim>\<open>ee.initialize(null, null, c0, c1)\<close> on the
  fresh module (an asynchronous load in flight), \<open>loaded_state\<close> after a synchronous
  \<^verbatim>\<open>ee.initialize()\<close> that succeeded.
\<close>

definition loading_state :: ee_state where
  "loading_state =
     fst (initialize quiet_callbacks None hooks_ok None None (Some 0) (Some 1) initial_state)"

definition loaded_state :: ee_state where
  "loaded_state =
     fst (initialize quiet_callbacks None hooks_ok None None None None initial_state)"

text \<open>Callbacks of which the success callback 0 throws.\<close>

definition callback_0_raises :: callbacks where
  "callback_0_raises =
     \<lparr>success_raises = (\<lambda>c. if c = 0 then Some (Error ''callback failed'') else None),
      error_raises = (\<lambda>c e. None)\<rparr>"
section \<open>JavaScript values and the collaborators of ee.js\<close>

text \<open>
  The values that reach \<^verbatim>\<open>ee.promote_\<close> and the class generator. A number is an integer
  or NaN (the code asks of a number only \<^verbatim>\<open>typeof\<close> and truthiness; a fraction or an
  infinity behaves as a non-zero integer does). \<open>JDate v\<close> is the native object
  \<^verbatim>\<open>new Date(v)\<close>. \<open>JObj cs ps\<close> is any other object: \<open>cs\<close> names the constructors \<open>C\<close> of
  the library for which \<^verbatim>\<open>x instanceof C\<close> holds, most specific first, and \<open>ps\<close> lists its
  own properties. A class is identified by the name under which \<^verbatim>\<open>ee\<close> exports it.
  Equality of values is structural, which is coarser than the identity of JavaScript
  objects: two values that differ here are different objects there.
\<close>

datatype jsval =
    JNull
  | JUndefined
  | JBool bool
  | JNum int
  | JNaN
  | JStr string
  | JDate jsval
  | JObj "string list" "(string \<times> jsval) list"

text \<open>\<^verbatim>\<open>goog.isNumber\<close> and \<^verbatim>\<open>goog.isString\<close>: \<^verbatim>\<open>typeof\<close> is number, is string.\<close>

fun isNumber :: "jsval \<Rightarrow> bool" where
  "isNumber (JNum n) = True"
| "isNumber JNaN = True"
| "isNumber v = False"

fun isString :: "jsval \<Rightarrow> bool" where
  "isString (JStr s) = True"
| "isString v = False"

text \<open>The conversion to boolean of \<^verbatim>\<open>if (arg)\<close> and \<^verbatim>\<open>x && arg\<close>.\<close>

fun truthy :: "jsval \<Rightarrow> bool" where
  "truthy JNull = False"
| "truthy JUndefined = False"
| "truthy (JBool b) = b"
| "truthy (JNum n) = (n \<noteq> 0)"
| "truthy JNaN = False"
| "truthy (JStr s) = (s \<noteq> [])"
| "truthy (JDate v) = True"
| "truthy (JObj cs ps) = True"

text \<open>\<^verbatim>\<open>v instanceof C\<close> for a constructor \<open>C\<close> of the library, named \<open>c\<close>.\<close>

fun instanceOf :: "jsval \<Rightarrow> string \<Rightarrow> bool" where
  "instanceOf (JObj cs ps) c = (c \<in> set cs)"
| "instanceOf v c = False"

text \<open>
  The property read \<^verbatim>\<open>v.p\<close>: a TypeError on null and undefined, undefined where the
  property is missing.
\<close>

fun getProp :: "jsval \<Rightarrow> string \<Rightarrow> error + jsval" where
  "getProp JNull p = Inl (TypeError ''Cannot read property of null'')"
| "getProp JUndefined p = Inl (TypeError ''Cannot read property of undefined'')"
| "getProp (JObj cs ps) p = Inr (case map_of ps p of Some v \<Rightarrow> v | None \<Rightarrow> JUndefined)"
| "getProp v p = Inr JUndefined"

text \<open>\<^verbatim>\<open>new ee.ComputedObject(func, args)\<close>; lines 581 and 394 show its two properties.\<close>

definition new_ComputedObject :: "jsval \<Rightarrow> jsval \<Rightarrow> jsval" where
  "new_ComputedObject func args = JObj [''ComputedObject''] [(''func'', func), (''args'', args)]"

text \<open>
  What a \<^verbatim>\<open>new\<close> expression evaluates to is an object, never a primitive value, null or
  undefined: this is the language. \<^verbatim>\<open>ee.ApiFunction._call\<close> is taken to return an object as
  well: the documentation of \<^verbatim>\<open>ee.call\<close> (lines 210-212) describes the result of a call as
  an object, and line 581 reads the \<^verbatim>\<open>func\<close> and \<^verbatim>\<open>args\<close> of the result. An object is given
  by its classes and its own properties.
\<close>

type_synonym object = "string list \<times> (string \<times> jsval) list"

definition object_value :: "object \<Rightarrow> jsval" where
  "object_value ob = JObj (fst ob) (snd ob)"

definition obj_result :: "error + object \<Rightarrow> error + jsval" where
  "obj_result outcome = (case outcome of Inl e \<Rightarrow> Inl e | Inr ob \<Rightarrow> Inr (object_value ob))"

text \<open>
  The code of the library outside \<^verbatim>\<open>ee.js\<close> that \<^verbatim>\<open>ee.promote_\<close> and \<^verbatim>\<open>ee.makeClass_\<close> call,
  as parameters. A constructor or a call may throw (\<open>Inl\<close>).
  \<^item> \<open>new_Image x v\<close> is \<^verbatim>\<open>new ee.Image(v)\<close>, and so on for the other hand-written types;
  \<^item> \<open>ApiFunction_call x n vs\<close> is \<^verbatim>\<open>ee.ApiFunction._call(n, v1, ..., vk)\<close>;
  \<^item> \<open>ApiFunction_lookup x n\<close> is \<^verbatim>\<open>ee.ApiFunction.lookup(n)\<close>;
  \<^item> \<open>promoteArgs_nameArgs x f vs\<close> is \<^verbatim>\<open>f.promoteArgs(f.nameArgs([v1, ..., vk]))\<close>;
  \<^item> \<open>Types_isString x v\<close> is \<^verbatim>\<open>ee.Types.isString(v)\<close>, and \<open>Types_isVarOfType_String x v\<close>
    is \<^verbatim>\<open>ee.Types.isVarOfType(v, ee.String)\<close>;
  \<^item> \<open>importApi x n\<close> gives the static members a generated class has once
    \<^verbatim>\<open>goog.inherits\<close> and \<^verbatim>\<open>ee.ApiFunction.importApi(target, n, n)\<close> have run (see \<open>klass\<close>).
\<close>

record ext =
  new_Image :: "jsval \<Rightarrow> error + object"
  new_ImageCollection :: "jsval \<Rightarrow> error + object"
  new_Feature :: "jsval \<Rightarrow> error + object"
  new_Geometry :: "jsval \<Rightarrow> error + object"
  new_FeatureCollection :: "jsval \<Rightarrow> error + object"
  new_Filter :: "jsval \<Rightarrow> error + object"
  new_ApiFunction :: "jsval \<Rightarrow> error + object"
  new_String :: "jsval \<Rightarrow> error + object"
  ApiFunction_call :: "string \<Rightarrow> jsval list \<Rightarrow> error + object"
  ApiFunction_lookup :: "string \<Rightarrow> error + jsval"
  promoteArgs_nameArgs :: "jsval \<Rightarrow> jsval list \<Rightarrow> error + jsval"
  Types_isString :: "jsval \<Rightarrow> bool"
  Types_isVarOfType_String :: "jsval \<Rightarrow> bool"
  importApi :: "string \<Rightarrow> string \<rightharpoonup> error + jsval"

text \<open>
  An entry of \<^verbatim>\<open>goog.global['ee']\<close>, the object through which \<^verbatim>\<open>ee.promote_\<close> and the class
  generator look classes up. A function \<open>F\<close> is a \<open>Klass\<close>: \<open>members\<close> maps every \<open>m\<close> with
  \<^verbatim>\<open>m in F\<close> to the outcome of \<^verbatim>\<open>F[m].call()\<close>, and \<open>construct v\<close> is \<^verbatim>\<open>new F(v)\<close>. An entry
  that is not callable (\<^verbatim>\<open>ee.Algorithms\<close>, \<^verbatim>\<open>ee.TILE_SIZE\<close>, the \<^verbatim>\<open>__proto__\<close> that every
  object has) is \<open>NotAFunction\<close>. The map has an entry for \<open>k\<close> exactly when
  \<^verbatim>\<open>k in exportedEE\<close>, whether the property is an own one or inherited from
  \<^verbatim>\<open>Object.prototype\<close>.
\<close>

record klass =
  members :: "string \<rightharpoonup> error + jsval"
  construct :: "jsval \<Rightarrow> error + jsval"

datatype ee_entry = Klass klass | NotAFunction
section \<open>The class generator\<close>

text \<open>
  The function \<^verbatim>\<open>target\<close> of \<^verbatim>\<open>ee.makeClass_\<close>, lines 564-586, for the class named \<open>name\<close>
  while \<^verbatim>\<open>exportedEE[name]\<close> is that class. \<open>target_result\<close> is lines 566-575. Called with
  \<^verbatim>\<open>new\<close>, \<^verbatim>\<open>this instanceof exportedEE[name]\<close> holds and the new object, an instance of the
  class and (line 587) of \<^verbatim>\<open>ee.ComputedObject\<close>, gets the \<^verbatim>\<open>func\<close> and \<^verbatim>\<open>args\<close> of the result.
  Called as a plain function, the result goes through the constructor again (line 584).
\<close>

definition target_result :: "ext \<Rightarrow> string \<Rightarrow> jsval list \<Rightarrow> error + jsval" where
  "target_result x name args =
     (case args of
        [v] \<Rightarrow>
          if instanceOf v ''ComputedObject'' then Inr v
          else obj_result (ApiFunction_call x name args)
      | _ \<Rightarrow> obj_result (ApiFunction_call x name args))"

definition target_new :: "ext \<Rightarrow> string \<Rightarrow> jsval list \<Rightarrow> error + jsval" where
  "target_new x name args =
     (case target_result x name args of
        Inl e \<Rightarrow> Inl e
      | Inr result \<Rightarrow>
          (case getProp result ''func'' of
             Inl e \<Rightarrow> Inl e
           | Inr f \<Rightarrow>
               (case getProp result ''args'' of
                  Inl e \<Rightarrow> Inl e
                | Inr a \<Rightarrow> Inr (JObj [name, ''ComputedObject''] [(''func'', f), (''args'', a)]))))"

definition target_call :: "ext \<Rightarrow> string \<Rightarrow> jsval list \<Rightarrow> error + jsval" where
  "target_call x name args =
     (case target_result x name args of
        Inl e \<Rightarrow> Inl e
      | Inr result \<Rightarrow> target_new x name [result])"

text \<open>\<^verbatim>\<open>ee.makeClass_\<close>, lines 549-590: the entry stored under \<open>name\<close>.\<close>

definition makeClass :: "ext \<Rightarrow> string \<Rightarrow> ee_entry" where
  "makeClass x name =
     Klass \<lparr>members = importApi x name, construct = (\<lambda>v. target_new x name [v])\<rparr>"

text \<open>
  A signature of the catalog; the generator reads \<^verbatim>\<open>returns\<close>. The catalog is the list of
  its entries in the order \<^verbatim>\<open>for (var sig in signatures)\<close> visits them.
\<close>

record signature =
  returns :: string

text \<open>
  \<^verbatim>\<open>names\<close> and \<^verbatim>\<open>returnTypes\<close> are objects used as sets: the list of their own keys, in
  insertion order. \<^verbatim>\<open>o[k] = true\<close> adds the key, except that assigning to \<^verbatim>\<open>__proto__\<close>
  creates no property. \<^verbatim>\<open>k in o\<close> also finds what a fresh object inherits from
  \<^verbatim>\<open>Object.prototype\<close>.
\<close>

definition set_key :: "string \<Rightarrow> string list \<Rightarrow> string list" where
  "set_key k ks = (if k = ''__proto__'' \<or> k \<in> set ks then ks else ks @ [k])"

definition Object_prototype_keys :: "string list" where
  "Object_prototype_keys =
     [''constructor'', ''hasOwnProperty'', ''isPrototypeOf'', ''propertyIsEnumerable'',
      ''toLocaleString'', ''toString'', ''valueOf'', ''__proto__'', ''__defineGetter__'',
      ''__defineSetter__'', ''__lookupGetter__'', ''__lookupSetter__'']"

definition key_in :: "string \<Rightarrow> string list \<Rightarrow> bool" where
  "key_in k ks = (k \<in> set ks \<or> k \<in> set Object_prototype_keys)"

text \<open>
  Line 502, \<^verbatim>\<open>returns.replace(/<.*>/, '')\<close>: the first \<^verbatim>\<open><\<close> that has a \<^verbatim>\<open>>\<close> after it on
  the same line is removed together with everything up to the last such \<^verbatim>\<open>>\<close>. The dot
  does not match a line terminator; type names are taken to be ASCII.
\<close>

definition line_terminator :: "char \<Rightarrow> bool" where
  "line_terminator c = (c = CHR 0x0A \<or> c = CHR 0x0D)"

fun strip_type_info :: "string \<Rightarrow> string" where
  "strip_type_info [] = []"
| "strip_type_info (c # cs) =
     (let line = takeWhile (\<lambda>d. \<not> line_terminator d) cs in
      if c = CHR ''<'' \<and> CHR ''>'' \<in> set line then
        rev (takeWhile (\<lambda>d. d \<noteq> CHR ''>'') (rev line)) @ drop (length line) cs
      else c # strip_type_info cs)"

text \<open>The loop of lines 496-504 over the catalog.\<close>

fun collect_names :: "(string \<times> signature) list \<Rightarrow> string list \<times> string list \<Rightarrow> string list \<times> string list" where
  "collect_names [] (names, returnTypes) = (names, returnTypes)"
| "collect_names ((sig, s) # rest) (names, returnTypes) =
     collect_names rest
       (if CHR ''.'' \<in> set sig
        then set_key (takeWhile (\<lambda>c. c \<noteq> CHR ''.'') sig) names else names,
        set_key (strip_type_info (returns s)) returnTypes)"

text \<open>
  Lines 507-512. \<^verbatim>\<open>for (var badName in blacklist)\<close> visits the property names of the
  array, which are its indices written in decimal: \<^verbatim>\<open>"0"\<close> for the one-element blacklist.
  \<^verbatim>\<open>names[badName]\<close> is true exactly when \<^verbatim>\<open>badName\<close> is a key of \<^verbatim>\<open>names\<close>.
\<close>

definition blacklist :: "string list" where
  "blacklist = [''List'']"

fun decimal :: "nat \<Rightarrow> string" where
  "decimal n =
     (if n < 10 then [char_of (48 + n)] else decimal (n div 10) @ [char_of (48 + n mod 10)])"

declare decimal.simps [simp del]

definition for_in_array :: "'a list \<Rightarrow> string list" where
  "for_in_array xs = map decimal [0..<length xs]"

fun delete_keys :: "string list \<Rightarrow> string list \<Rightarrow> string list" where
  "delete_keys [] names = names"
| "delete_keys (badName # rest) names =
     delete_keys rest (if badName \<in> set names then removeAll badName names else names)"

text \<open>
  The order in which \<^verbatim>\<open>for (var name in names)\<close> visits the keys of an object: the keys
  that are array indices (the decimal numeral, without leading zeros, of a number below
  4294967295) first, by ascending value, then the other keys in insertion order.
\<close>

definition index_value :: "string \<Rightarrow> nat" where
  "index_value k = foldl (\<lambda>n c. 10 * n + (of_char c - 48)) 0 k"

definition is_array_index :: "string \<Rightarrow> bool" where
  "is_array_index k =
     (k \<noteq> [] \<and> list_all (\<lambda>c. c \<in> set ''0123456789'') k \<and>
      (hd k = CHR ''0'' \<longrightarrow> k = ''0'') \<and> index_value k < 4294967295)"

definition for_in_keys :: "string list \<Rightarrow> string list" where
  "for_in_keys ks =
     sort_key index_value (filter is_array_index ks) @ filter (\<lambda>k. \<not> is_array_index k) ks"

text \<open>
  The registry and the list \<^verbatim>\<open>ee.generatedClasses_\<close>; lines 516-521 over the keys of
  \<^verbatim>\<open>names\<close>.
\<close>

record registry =
  exportedEE :: "string \<rightharpoonup> ee_entry"
  generatedClasses :: "string list"

fun create_classes :: "ext \<Rightarrow> string list \<Rightarrow> string list \<Rightarrow> registry \<Rightarrow> registry" where
  "create_classes x returnTypes [] r = r"
| "create_classes x returnTypes (name # rest) r =
     create_classes x returnTypes rest
       (if key_in name returnTypes \<and> exportedEE r name = None then
          r\<lparr>exportedEE := (exportedEE r)(name \<mapsto> makeClass x name),
            generatedClasses := generatedClasses r @ [name]\<rparr>
        else r)"

text \<open>
  \<^verbatim>\<open>ee.initializeGeneratedClasses_\<close>, lines 489-523. The final
  \<^verbatim>\<open>ee.Types.registerClasses(exportedEE)\<close> changes nothing that is modelled here.
\<close>

definition initializeGeneratedClasses ::
  "ext \<Rightarrow> (string \<times> signature) list \<Rightarrow> registry \<Rightarrow> registry" where
  "initializeGeneratedClasses x signatures r =
     (case collect_names signatures ([], []) of
        (names, returnTypes) \<Rightarrow>
          create_classes x returnTypes
            (for_in_keys (delete_keys (for_in_array blacklist) names)) r)"
section \<open>The type promoter\<close>

text \<open>The labels of the switch of lines 340-421, in source order.\<close>

definition promotion_table :: "string list" where
  "promotion_table =
     [''Image'', ''ImageCollection'', ''Feature'', ''EEObject'', ''Geometry'',
      ''FeatureCollection'', ''EECollection'', ''Collection'', ''Filter'', ''ErrorMargin'',
      ''Algorithm'', ''Date'', ''Dictionary'', ''String'', ''List'']"

text \<open>
  The default branch, lines 422-441. \<open>ee\<close> is \<^verbatim>\<open>exportedEE\<close>. The test of line 424 is
  \<^verbatim>\<open>klass in exportedEE && arg\<close>: the entry exists and the argument is truthy. With an entry
  that is not a function, \<^verbatim>\<open>instanceof\<close> throws a TypeError.
\<close>

definition unknown_algorithm :: "string \<Rightarrow> string \<Rightarrow> error" where
  "unknown_algorithm klass arg = Error (''Unknown algorithm: '' @ klass @ ''.'' @ arg)"

definition promote_default :: "(string \<rightharpoonup> ee_entry) \<Rightarrow> jsval \<Rightarrow> string \<Rightarrow> error + jsval" where
  "promote_default ee arg klass =
     (case ee klass of
        None \<Rightarrow> Inr arg
      | Some entry \<Rightarrow>
          if \<not> truthy arg then Inr arg
          else
            (case entry of
               NotAFunction \<Rightarrow> Inl (TypeError ''Right-hand side of instanceof is not callable'')
             | Klass k \<Rightarrow>
                 if instanceOf arg klass then Inr arg
                 else
                   (case arg of
                      JStr s \<Rightarrow>
                        (case members k s of
                           None \<Rightarrow> Inl (unknown_algorithm klass s)
                         | Some outcome \<Rightarrow> outcome)
                    | _ \<Rightarrow> construct k arg)))"

text \<open>
  \<^verbatim>\<open>ee.promote_\<close>, lines 331-443. The classes named in the \<^verbatim>\<open>instanceof\<close> tests of the
  fixed branches are the hand-written ones, \<^verbatim>\<open>ee.Collection\<close>, \<^verbatim>\<open>ee.Image\<close>,
  \<^verbatim>\<open>ee.FeatureCollection\<close>, \<^verbatim>\<open>ee.ComputedObject\<close> and \<^verbatim>\<open>ee.String\<close>.
\<close>

definition promote :: "ext \<Rightarrow> (string \<rightharpoonup> ee_entry) \<Rightarrow> jsval \<Rightarrow> string \<Rightarrow> error + jsval" where
  "promote x ee arg klass =
     (if arg = JNull then Inr JNull
      else if arg = JUndefined then Inr JUndefined
      else if klass = ''Image'' then obj_result (new_Image x arg)
      else if klass = ''ImageCollection'' then obj_result (new_ImageCollection x arg)
      else if klass = ''Feature'' \<or> klass = ''EEObject'' then
        (if instanceOf arg ''Collection'' then
           (case obj_result (ApiFunction_call x ''Collection.geometry'' [arg]) of
              Inl e \<Rightarrow> Inl e
            | Inr g \<Rightarrow> obj_result (ApiFunction_call x ''Feature'' [g]))
         else if klass = ''EEObject'' \<and> instanceOf arg ''Image'' then Inr arg
         else obj_result (new_Feature x arg))
      else if klass = ''Geometry'' then
        (if instanceOf arg ''FeatureCollection''
         then obj_result (ApiFunction_call x ''Collection.geometry'' [arg])
         else obj_result (new_Geometry x arg))
      else if klass = ''FeatureCollection'' \<or> klass = ''EECollection'' \<or> klass = ''Collection''
      then
        (if instanceOf arg ''Collection'' then Inr arg else obj_result (new_FeatureCollection x arg))
      else if klass = ''Filter'' then obj_result (new_Filter x arg)
      else if klass = ''ErrorMargin'' then
        (if isNumber arg then obj_result (ApiFunction_call x ''ErrorMargin'' [arg, JStr ''meters''])
         else Inr arg)
      else if klass = ''Algorithm'' then
        (if isString arg then obj_result (new_ApiFunction x arg) else Inr arg)
      else if klass = ''Date'' then
        (if isString arg then Inr (JDate arg)
         else if isNumber arg then Inr (JDate arg)
         else if instanceOf arg ''ComputedObject'' then
           (case ApiFunction_lookup x ''Date'' of
              Inl e \<Rightarrow> Inl e
            | Inr func \<Rightarrow>
                (case promoteArgs_nameArgs x func [arg] of
                   Inl e \<Rightarrow> Inl e
                 | Inr args \<Rightarrow> Inr (new_ComputedObject func args)))
         else Inr arg)
      else if klass = ''Dictionary'' then
        (case ee klass of
           None \<Rightarrow> Inr arg
         | Some NotAFunction \<Rightarrow>
             Inl (TypeError ''Right-hand side of instanceof is not callable'')
         | Some (Klass k) \<Rightarrow>
             if instanceOf arg klass then Inr arg
             else if instanceOf arg ''ComputedObject'' then construct k arg
             else Inr arg)
      else if klass = ''String'' then
        (if Types_isString x arg \<or> instanceOf arg ''String'' \<or>
            instanceOf arg ''ComputedObject'' \<or> Types_isVarOfType_String x arg
         then obj_result (new_String x arg)
         else Inr arg)
      else if klass = ''List'' then Inr arg
      else promote_default ee arg klass)"

text \<open>
  The targets whose rule returns the result of a first promotion by a test of its own (an
  \<^verbatim>\<open>instanceof\<close>, a \<^verbatim>\<open>typeof\<close>), so that \<^verbatim>\<open>ee.js\<close> itself decides what a second promotion
  does. The rules of \<^verbatim>\<open>Image\<close>, \<^verbatim>\<open>ImageCollection\<close>, \<^verbatim>\<open>Feature\<close>, \<^verbatim>\<open>EEObject\<close>, \<^verbatim>\<open>Geometry\<close>,
  \<^verbatim>\<open>Filter\<close> and \<^verbatim>\<open>String\<close> may hand it to a hand-written constructor again.
\<close>

definition decided_targets :: "string list" where
  "decided_targets =
     [''FeatureCollection'', ''EECollection'', ''Collection'', ''ErrorMargin'', ''Algorithm'',
      ''Date'', ''Dictionary'', ''List'']"


subsection \<open>Sample collaborators\<close>

text \<open>
  Collaborators for concrete inputs, in the manner of the library: a constructor
  returns an instance of its class as it is and wraps any other value in a new instance;
  \<^verbatim>\<open>ee.ApiFunction._call\<close> builds a computed object of the class the algorithm returns, its
  arguments named by position; \<^verbatim>\<open>nameArgs\<close> and \<^verbatim>\<open>promoteArgs\<close> name the arguments by
  position and leave them as they are.
\<close>

definition wrap :: "string \<Rightarrow> string list \<Rightarrow> jsval \<Rightarrow> error + jsval" where
  "wrap c supers v =
     (if instanceOf v c then Inr v
      else Inr (JObj (c # supers) [(''func'', JStr c), (''args'', JObj [] [(''value'', v)])]))"

definition sample_function :: "string \<Rightarrow> jsval" where
  "sample_function n = JObj [''ApiFunction'', ''Function''] [(''name'', JStr n)]"

definition sample_args :: "jsval list \<Rightarrow> jsval" where
  "sample_args vs = JObj [] (zip (for_in_array vs) vs)"

definition sample_return_classes :: "string \<Rightarrow> string list" where
  "sample_return_classes n =
     (if n = ''Feature'' then [''Feature'', ''Element'', ''ComputedObject'']
      else if n = ''Collection.geometry'' then [''Geometry'', ''ComputedObject'']
      else [''ComputedObject''])"

definition sample_call_object :: "string \<Rightarrow> jsval list \<Rightarrow> error + object" where
  "sample_call_object n vs =
     Inr (sample_return_classes n, [(''func'', sample_function n), (''args'', sample_args vs)])"

definition sample_call :: "string \<Rightarrow> jsval list \<Rightarrow> error + jsval" where
  "sample_call n vs =
     Inr (JObj (sample_return_classes n)
            [(''func'', sample_function n), (''args'', sample_args vs)])"

definition wrap_object :: "string \<Rightarrow> string list \<Rightarrow> jsval \<Rightarrow> error + object" where
  "wrap_object c supers v =
     (case v of
        JObj cs ps \<Rightarrow>
          if c \<in> set cs then Inr (cs, ps)
          else Inr (c # supers, [(''func'', JStr c), (''args'', JObj [] [(''value'', v)])])
      | _ \<Rightarrow> Inr (c # supers, [(''func'', JStr c), (''args'', JObj [] [(''value'', v)])]))"

text \<open>
  What \<^verbatim>\<open>m in F\<close> finds on every function \<open>F\<close>, with the outcome of \<^verbatim>\<open>F[m].call()\<close>: the own
  properties \<^verbatim>\<open>length\<close>, \<^verbatim>\<open>name\<close>, \<^verbatim>\<open>prototype\<close>, \<^verbatim>\<open>arguments\<close> and \<^verbatim>\<open>caller\<close>, whose values
  have no \<^verbatim>\<open>call\<close>, and what a function inherits from \<^verbatim>\<open>Function.prototype\<close> and
  \<^verbatim>\<open>Object.prototype\<close>. Called without a receiver, these throw a TypeError, except
  \<^verbatim>\<open>constructor\<close> (\<^verbatim>\<open>Function()\<close> makes a new function, an object of no class of the
  library), \<^verbatim>\<open>isPrototypeOf\<close> (false) and \<^verbatim>\<open>__proto__\<close> (\<^verbatim>\<open>Function.prototype()\<close> returns
  undefined).
\<close>

definition not_callable :: "error + jsval" where
  "not_callable = Inl (TypeError ''call is not a function'')"

definition no_receiver :: "error + jsval" where
  "no_receiver = Inl (TypeError ''called on undefined'')"

definition function_members :: "(string \<times> (error + jsval)) list" where
  "function_members =
     [(''length'', not_callable), (''name'', not_callable), (''prototype'', not_callable),
      (''arguments'', not_callable), (''caller'', not_callable),
      (''apply'', no_receiver), (''bind'', no_receiver), (''call'', no_receiver),
      (''toString'', no_receiver), (''constructor'', Inr (JObj [] [])),
      (''hasOwnProperty'', no_receiver), (''isPrototypeOf'', Inr (JBool False)),
      (''propertyIsEnumerable'', no_receiver), (''toLocaleString'', no_receiver),
      (''valueOf'', no_receiver), (''__proto__'', Inr JUndefined),
      (''__defineGetter__'', no_receiver), (''__defineSetter__'', no_receiver),
      (''__lookupGetter__'', no_receiver), (''__lookupSetter__'', no_receiver)]"

text \<open>
  The static members of a sample generated class: the ones of every function,
  \<^verbatim>\<open>superClass_\<close> (an object, set by \<^verbatim>\<open>goog.inherits\<close>) and, for \<^verbatim>\<open>Kernel\<close>, the algorithm
  \<^verbatim>\<open>gaussian\<close> bound by \<^verbatim>\<open>importApi\<close>.
\<close>

definition sample_importApi :: "string \<Rightarrow> string \<rightharpoonup> error + jsval" where
  "sample_importApi n =
     map_of
       ((if n = ''Kernel'' then [(''gaussian'', sample_call ''Kernel.gaussian'' [])] else []) @
        (''superClass_'', not_callable) # function_members)"

definition sample_ext :: ext where
  "sample_ext =
     \<lparr>new_Image = wrap_object ''Image'' [''Element'', ''ComputedObject''],
      new_ImageCollection =
        wrap_object ''ImageCollection'' [''Collection'', ''Element'', ''ComputedObject''],
      new_Feature = wrap_object ''Feature'' [''Element'', ''ComputedObject''],
      new_Geometry = wrap_object ''Geometry'' [''ComputedObject''],
      new_FeatureCollection =
        wrap_object ''FeatureCollection'' [''Collection'', ''Element'', ''ComputedObject''],
      new_Filter = wrap_object ''Filter'' [''ComputedObject''],
      new_ApiFunction = (\<lambda>v. Inr ([''ApiFunction'', ''Function''], [(''name'', v)])),
      new_String = wrap_object ''String'' [''ComputedObject''],
      ApiFunction_call = sample_call_object,
      ApiFunction_lookup = (\<lambda>n. Inr (sample_function n)),
      promoteArgs_nameArgs = (\<lambda>f vs. Inr (sample_args vs)),
      Types_isString = isString,
      Types_isVarOfType_String = (\<lambda>v. False),
      importApi = sample_importApi\<rparr>"

text \<open>
  A registry before any class is generated: the exported hand-written types that reach the
  default branch or the generator, \<^verbatim>\<open>ee.Algorithms\<close>, and what the object inherits from
  \<^verbatim>\<open>Object.prototype\<close>. A hand-written class has the members of every function,
  \<^verbatim>\<open>superClass_\<close>, and \<^verbatim>\<open>reset\<close> and \<^verbatim>\<open>initialize\<close> (lines 108-116 and 261-269), taken to
  return undefined; its other static methods are left out. \<^verbatim>\<open>constructor\<close> is \<^verbatim>\<open>Object\<close>:
  \<^verbatim>\<open>new Object(v)\<close> is \<open>v\<close> for an object and a new wrapper object for a primitive value;
  the static methods of \<^verbatim>\<open>Object\<close> are left out. The other inherited functions are built-in
  methods, which cannot be constructed.
\<close>

definition hand_written :: "string \<Rightarrow> string list \<Rightarrow> ee_entry" where
  "hand_written c supers =
     Klass \<lparr>members = map_of ((''reset'', Inr JUndefined) # (''initialize'', Inr JUndefined) #
                               (''superClass_'', not_callable) # function_members),
            construct = wrap c supers\<rparr>"

definition builtin_method :: ee_entry where
  "builtin_method =
     Klass \<lparr>members = map_of (filter (\<lambda>m. fst m \<noteq> ''prototype'') function_members),
            construct = (\<lambda>v. Inl (TypeError ''not a constructor''))\<rparr>"

definition new_Object :: "jsval \<Rightarrow> error + jsval" where
  "new_Object v =
     (case v of
        JObj cs ps \<Rightarrow> Inr v
      | JDate d \<Rightarrow> Inr v
      | _ \<Rightarrow> Inr (JObj [] [(''[[PrimitiveValue]]'', v)]))"

definition sample_exportedEE :: "string \<rightharpoonup> ee_entry" where
  "sample_exportedEE =
     map_of
       ([(''Image'', hand_written ''Image'' [''Element'', ''ComputedObject'']),
         (''Feature'', hand_written ''Feature'' [''Element'', ''ComputedObject'']),
         (''Collection'', hand_written ''Collection'' [''Element'', ''ComputedObject'']),
         (''ImageCollection'',
            hand_written ''ImageCollection'' [''Collection'', ''Element'', ''ComputedObject'']),
         (''FeatureCollection'',
            hand_written ''FeatureCollection'' [''Collection'', ''Element'', ''ComputedObject'']),
         (''Filter'', hand_written ''Filter'' [''ComputedObject'']),
         (''Geometry'', hand_written ''Geometry'' [''ComputedObject'']),
         (''Number'', hand_written ''Number'' [''ComputedObject'']),
         (''String'', hand_written ''String'' [''ComputedObject'']),
         (''Algorithms'', NotAFunction),
         (''constructor'', Klass \<lparr>members = map_of function_members, construct = new_Object\<rparr>),
         (''__proto__'', NotAFunction)] @
        map (\<lambda>k. (k, builtin_method))
          [''hasOwnProperty'', ''isPrototypeOf'', ''propertyIsEnumerable'', ''toLocaleString'',
           ''toString'', ''valueOf'', ''__defineGetter__'', ''__defineSetter__'',
           ''__lookupGetter__'', ''__lookupSetter__''])"

definition sample_registry :: registry where
  "sample_registry = \<lparr>exportedEE = sample_exportedEE, generatedClasses = []\<rparr>"


definition list_catalog :: "(string \<times> signature) list" where
  "list_catalog =
     [(''List.sequence'', \<lparr>returns = ''List''\<rparr>),
      (''List.map'', \<lparr>returns = ''List<Object>''\<rparr>)]"

text \<open>
  The sample registry with two generated classes, \<^verbatim>\<open>Dictionary\<close> and \<^verbatim>\<open>Kernel\<close> (the latter
  with a static member \<^verbatim>\<open>gaussian\<close>), and the computed object that a promotion to \<^verbatim>\<open>Date\<close>
  builds from \<open>v\<close> with the sample collaborators.
\<close>

definition sample_generated :: "string \<rightharpoonup> ee_entry" where
  "sample_generated =
     sample_exportedEE(''Dictionary'' \<mapsto> makeClass sample_ext ''Dictionary'',
                       ''Kernel'' \<mapsto> makeClass sample_ext ''Kernel'')"

section \<open>Properties of the initialization controller\<close>

subsection \<open>What the loops and handlers leave unchanged\<close>

lemma drain_success_frame:
  "drain_success cbs cs s = (s', r) \<Longrightarrow>
     ready s' = ready s \<and> errorCallbacks s' = errorCallbacks s"
  by (induction cs arbitrary: s) (auto simp: Let_def split: option.splits)

lemma drain_error_frame:
  "drain_error cbs e cs s = (s', r) \<Longrightarrow>
     ready s' = ready s \<and> successCallbacks s' = successCallbacks s"
  by (induction cs arbitrary: s) (auto simp: Let_def split: option.splits)

lemma run_hooks_frame:
  "run_hooks h xs s = (s', r) \<Longrightarrow>
     ready s' = ready s \<and> successCallbacks s' = successCallbacks s \<and>
     errorCallbacks s' = errorCallbacks s"
  by (induction xs arbitrary: s) (auto simp: Let_def split: option.splits)


lemma run_hooks_raise:
  "\<forall>y\<in>set pre. h y = None \<Longrightarrow> h x = Some e \<Longrightarrow>
     run_hooks h (pre @ x # post) s = (s\<lparr>trace := trace s @ map Hook (pre @ [x])\<rparr>, Some e)"
  by (induction pre arbitrary: s) (auto simp: Let_def)

lemma drain_success_quiet:
  "\<forall>c\<in>set cs. success_raises cbs c = None \<Longrightarrow>
   drain_success cbs cs s =
     (s\<lparr>successCallbacks := [], trace := trace s @ map SuccessCallback cs\<rparr>, None)"
  by (induction cs arbitrary: s) (auto simp: Let_def)

lemma drain_error_quiet:
  "\<forall>c\<in>set cs. error_raises cbs c e = None \<Longrightarrow>
   drain_error cbs e cs s =
     (s\<lparr>errorCallbacks := [], trace := trace s @ map (\<lambda>c. ErrorCallback c e) cs\<rparr>, None)"
  by (induction cs arbitrary: s) (auto simp: Let_def)


subsection \<open>The guard of the two handlers\<close>

lemma initializationFailure_stale:
  "ready s \<noteq> LOADING \<Longrightarrow> initializationFailure cbs e s = (s, None)"
  by (simp add: initializationFailure_def)

lemma initializationSuccess_stale:
  "ready s \<noteq> LOADING \<Longrightarrow> initializationSuccess cbs h s = (s, None)"
  by (simp add: initializationSuccess_def)

lemma initializationFailure_settles:
  "initializationFailure cbs e s = (s', r) \<Longrightarrow> ready s = LOADING \<Longrightarrow> ready s' = NOT_READY"
  by (auto simp: initializationFailure_def dest: drain_error_frame)

lemma initializationSuccess_settles:
  "initializationSuccess cbs h s = (s', r) \<Longrightarrow> ready s = LOADING \<Longrightarrow> ready s' \<noteq> LOADING"
  by (auto simp: initializationSuccess_def split: prod.splits option.splits
           dest!: run_hooks_frame drain_success_frame initializationFailure_settles)

lemma initializationFailure_quiet:
  "never_raise cbs \<Longrightarrow> ready s = LOADING \<Longrightarrow> initializationFailure cbs e s = (s', r) \<Longrightarrow>
     ready s' = NOT_READY \<and> successCallbacks s' = [] \<and> errorCallbacks s' = []"
  by (auto simp: initializationFailure_def never_raise_def drain_error_quiet)

lemma initializationSuccess_quiet:
  assumes "never_raise cbs" "ready s = LOADING" "initializationSuccess cbs h s = (s', r)"
  shows "ready s' \<noteq> LOADING \<and> successCallbacks s' = [] \<and> errorCallbacks s' = []"
proof -
  obtain s1 r1 where h: "run_hooks h init_hooks s = (s1, r1)"
    by (cases "run_hooks h init_hooks s")
  then have fr: "ready s1 = LOADING" using run_hooks_frame[OF h] assms(2) by simp
  show ?thesis
  proof (cases r1)
    case None
    then show ?thesis
      using assms h by (auto simp: initializationSuccess_def never_raise_def drain_success_quiet)
  next
    case (Some e)
    then have "initializationFailure cbs e s1 = (s', r)"
      using assms h by (simp add: initializationSuccess_def)
    from initializationFailure_quiet[OF assms(1) fr this] show ?thesis by simp
  qed
qed

subsection \<open>The synchronous path of initialize\<close>

lemma initialize_sync_unfold:
  assumes "ready s \<noteq> READY \<or> \<not> falsy_url b \<or> \<not> falsy_url t"
  shows "initialize cbs load h b t None None s =
     (let s3 = s\<lparr>ready := LOADING,
                 trace := trace s @ [DataInitialize b t, ApiFunctionInitialize False]\<rparr> in
      case (case load of Some e \<Rightarrow> (s3, Some e) | None \<Rightarrow> initializationSuccess cbs h s3) of
        (s4, None) \<Rightarrow> (s4, None)
      | (s4, Some e) \<Rightarrow>
         (case initializationFailure cbs e s4 of
            (s5, None) \<Rightarrow> (s5, Some e)
          | (s5, Some e') \<Rightarrow> (s5, Some e')))"
  using assms by (auto simp: initialize_def Let_def)

lemma initialize_sync_settles:
  assumes nf: "ready s \<noteq> READY \<or> \<not> falsy_url b \<or> \<not> falsy_url t"
    and i: "initialize cbs load h b t None None s = (s', r)"
  shows "ready s' \<noteq> LOADING"
proof -
  let ?s3 = "s\<lparr>ready := LOADING,
               trace := trace s @ [DataInitialize b t, ApiFunctionInitialize False]\<rparr>"
  show ?thesis
  proof (cases load)
    case (Some e0)
    obtain s5 r5 where f: "initializationFailure cbs e0 ?s3 = (s5, r5)"
      by (cases "initializationFailure cbs e0 ?s3")
    from f have "ready s5 = NOT_READY" by (rule initializationFailure_settles) simp
    moreover have "s' = s5"
      using i Some f by (simp add: initialize_sync_unfold[OF nf] split: option.splits)
    ultimately show ?thesis by simp
  next
    case None
    obtain s4 r4 where g: "initializationSuccess cbs h ?s3 = (s4, r4)"
      by (cases "initializationSuccess cbs h ?s3")
    from g have n: "ready s4 \<noteq> LOADING" by (rule initializationSuccess_settles) simp
    have "s' = s4"
      using i None g n
      by (auto simp: initialize_sync_unfold[OF nf] initializationFailure_stale
               split: option.splits)
    with n show ?thesis by simp
  qed
qed

lemma initialize_sync_quiet:
  assumes nr: "never_raise cbs"
    and nf: "ready s \<noteq> READY \<or> \<not> falsy_url b \<or> \<not> falsy_url t"
    and i: "initialize cbs load h b t None None s = (s', r)"
  shows "successCallbacks s' = [] \<and> errorCallbacks s' = []"
proof -
  let ?s3 = "s\<lparr>ready := LOADING,
               trace := trace s @ [DataInitialize b t, ApiFunctionInitialize False]\<rparr>"
  show ?thesis
  proof (cases load)
    case (Some e0)
    obtain s5 r5 where f: "initializationFailure cbs e0 ?s3 = (s5, r5)"
      by (cases "initializationFailure cbs e0 ?s3")
    have "s' = s5"
      using i Some f by (simp add: initialize_sync_unfold[OF nf] split: option.splits)
    with initializationFailure_quiet[OF nr _ f] show ?thesis by simp
  next
    case None
    obtain s4 r4 where g: "initializationSuccess cbs h ?s3 = (s4, r4)"
      by (cases "initializationSuccess cbs h ?s3")
    from initializationSuccess_quiet[OF nr _ g]
    have q: "ready s4 \<noteq> LOADING \<and> successCallbacks s4 = [] \<and> errorCallbacks s4 = []"
      by simp
    have "s' = s4"
      using i None g q
      by (auto simp: initialize_sync_unfold[OF nf] initializationFailure_stale
               split: option.splits)
    with q show ?thesis by simp
  qed
qed

lemma never_raise_quiet_callbacks: "never_raise quiet_callbacks"
  by (simp add: never_raise_def quiet_callbacks_def)

lemma ready_loading_state: "ready loading_state = LOADING"
  by (simp add: loading_state_def initialize_def initial_state_def)

lemma ready_loaded_state: "ready loaded_state = READY"
  by (simp add: loaded_state_def initialize_def initial_state_def initializationSuccess_def
        init_hooks_def hooks_ok_def)
subsection \<open>Claims about the controller\<close>

text \<open>
  C7. A call of \<^verbatim>\<open>ee.initialize\<close> that is not served by the READY fast path and passes an
  error callback without a success callback throws the usage error of line 68, and the
  state it leaves is the state it found: \<^verbatim>\<open>ee.ready_\<close>, both queues and the log of calls to
  the transport and to the signature registry are unchanged.
\<close>

theorem error_callback_without_success_is_usage_error:
  assumes "\<not> (ready s = READY \<and> falsy_url b \<and> falsy_url t)"
  shows "initialize cbs load h b t None (Some ec) s = (s, Some usage_error)"
  using assms by (simp add: initialize_def)

theorem error_callback_without_success_is_usage_error_witness:
  "initialize quiet_callbacks None hooks_ok None None None (Some 1) loading_state =
     (loading_state, Some usage_error) \<and>
   ready loading_state = LOADING \<and> errorCallbacks loading_state = [1]"
proof -
  have "\<not> (ready loading_state = READY \<and> falsy_url None \<and> falsy_url None)"
    by (simp add: ready_loading_state)
  from error_callback_without_success_is_usage_error[OF this]
  show ?thesis
    by (simp add: ready_loading_state)
       (simp add: loading_state_def initialize_def initial_state_def)
qed

text \<open>
  C10. In state READY with no endpoint given, a call that passes an error callback and no
  success callback returns normally and changes nothing: the fast path of lines 54-59
  returns before the check of lines 64-70.
\<close>

theorem ready_fast_path_skips_usage_error:
  assumes "ready s = READY" and "falsy_url b" and "falsy_url t"
  shows "initialize cbs load h b t None (Some ec) s = (s, None)"
  using assms by (simp add: initialize_def)

theorem ready_fast_path_skips_usage_error_witness:
  "ready loaded_state = READY \<and> falsy_url None \<and> falsy_url (Some []) \<and>
   initialize quiet_callbacks None hooks_ok None (Some []) None (Some 1) loaded_state =
     (loaded_state, None)"
proof -
  have u: "falsy_url None" "falsy_url (Some [])" by (simp_all add: falsy_url_def)
  from ready_fast_path_skips_usage_error[OF ready_loaded_state u] ready_loaded_state u
  show ?thesis by simp
qed

text \<open>
  C5, as amended. In state READY, a call that gives no endpoint (both URL arguments
  undefined, null or empty) does not run the bootstrap again: the state stays READY, nothing
  is sent to the transport or to the signature registry, a success callback, if given, is
  invoked before the call returns (and what it throws is what the call throws), and without
  a success callback nothing happens at all.
\<close>

theorem ready_fast_path:
  assumes "ready s = READY" and "falsy_url b" and "falsy_url t"
  shows "initialize cbs load h b t (Some c) ec s =
           (s\<lparr>trace := trace s @ [SuccessCallback c]\<rparr>, success_raises cbs c) \<and>
         initialize cbs load h b t None ec s = (s, None)"
  using assms by (simp add: initialize_def)

theorem ready_fast_path_witness:
  "ready loaded_state = READY \<and> falsy_url None \<and>
   initialize quiet_callbacks None hooks_ok None None (Some 5) None loaded_state =
     (loaded_state\<lparr>trace := trace loaded_state @ [SuccessCallback 5]\<rparr>, None) \<and>
   initialize quiet_callbacks None hooks_ok None None None None loaded_state =
     (loaded_state, None)"
proof -
  have u: "falsy_url None" by (simp add: falsy_url_def)
  from ready_fast_path[OF ready_loaded_state u u, of quiet_callbacks None hooks_ok 5 None]
    ready_loaded_state u
  show ?thesis by (simp add: quiet_callbacks_def)
qed

text \<open>
  C5 as stated fails: the code keeps no record of the previous endpoint and compares
  nothing. Two synchronous calls with the same base URL: the first one leaves the state
  READY, the second one configures the transport, loads the signatures and runs every hook
  again.
\<close>

theorem same_endpoint_reruns_bootstrap:
  "ready (fst (initialize quiet_callbacks None hooks_ok (Some ''u'') None None None
                 initial_state)) = READY \<and>
   trace (fst (initialize quiet_callbacks None hooks_ok (Some ''u'') None None None
     (fst (initialize quiet_callbacks None hooks_ok (Some ''u'') None None None
             initial_state)))) =
   trace (fst (initialize quiet_callbacks None hooks_ok (Some ''u'') None None None
                 initial_state)) @
     [DataInitialize (Some ''u'') None, ApiFunctionInitialize False] @ map Hook init_hooks"
  by code_simp

text \<open>
  C4. While an asynchronous load is in flight (state LOADING), a synchronous
  \<^verbatim>\<open>ee.initialize\<close> leaves a state that is not LOADING, whatever the load and the hooks do
  and whether it returns or throws. In that state both completion handlers of the
  superseded asynchronous load are no-ops: they return the state as it is, so no state
  changes and no callback is invoked a second time.
\<close>

theorem stale_completion_after_sync_is_noop:
  assumes "ready s = LOADING"
    and "initialize cbs load h b t None None s = (s', r)"
  shows "ready s' \<noteq> LOADING \<and>
         initializationSuccess cbs h' s' = (s', None) \<and>
         initializationFailure cbs e s' = (s', None)"
proof -
  have "ready s' \<noteq> LOADING"
    using assms by (auto dest: initialize_sync_settles[rotated])
  then show ?thesis by (simp add: initializationFailure_stale initializationSuccess_stale)
qed

theorem stale_completion_after_sync_is_noop_witness:
  "ready loading_state = LOADING \<and>
   ready (fst (initialize quiet_callbacks None hooks_ok None None None None loading_state))
     = READY \<and>
   initializationSuccess quiet_callbacks hooks_ok
     (fst (initialize quiet_callbacks None hooks_ok None None None None loading_state)) =
     (fst (initialize quiet_callbacks None hooks_ok None None None None loading_state), None) \<and>
   initializationFailure quiet_callbacks (Error ''late'')
     (fst (initialize quiet_callbacks None hooks_ok None None None None loading_state)) =
     (fst (initialize quiet_callbacks None hooks_ok None None None None loading_state), None)"
proof -
  have r: "ready (fst (initialize quiet_callbacks None hooks_ok None None None None
                         loading_state)) = READY"
    by code_simp
  from stale_completion_after_sync_is_noop[OF ready_loading_state prod.collapse[symmetric],
      of quiet_callbacks None hooks_ok None None hooks_ok "Error ''late''"]
    ready_loading_state r
  show ?thesis by simp
qed



text \<open>
  A failure inside a synchronous \<^verbatim>\<open>ee.initialize\<close> (no callback argument) that is not served
  by the fast path, on its two paths. When the signature load of line 89 throws \<open>e\<close>, the
  catch clause of lines 91-94 runs the failure handler and throws \<open>e\<close> again. When the load
  succeeds and a statement \<open>x\<close> of the try block of lines 259-273 (the \<^verbatim>\<open>initialize()\<close> of a
  hand-written type, the class generator or the binder of unbound methods) throws \<open>e\<close>, the
  catch clause of lines 274-277 runs the failure handler and returns: nothing reaches the
  catch clause of lines 91-94, and the call returns normally. In both, no queued error
  callback is taken to throw.
\<close>

lemma sync_load_failure_is_rethrown:
  assumes nf: "\<not> (ready s = READY \<and> falsy_url b \<and> falsy_url t)"
    and quiet: "\<forall>c\<in>set (errorCallbacks s). error_raises cbs c e = None"
  shows "initialize cbs (Some e) h b t None None s =
    (s\<lparr>ready := NOT_READY, successCallbacks := [], errorCallbacks := [],
       trace := trace s @ [DataInitialize b t, ApiFunctionInitialize False] @
                map (\<lambda>c. ErrorCallback c e) (errorCallbacks s)\<rparr>,
     Some e)"
proof -
  from nf have nf': "ready s \<noteq> READY \<or> \<not> falsy_url b \<or> \<not> falsy_url t" by blast
  show ?thesis
    using quiet
    by (simp add: initialize_sync_unfold[OF nf'] initializationFailure_def drain_error_quiet)
qed

lemma sync_hook_failure_is_swallowed:
  assumes nf: "\<not> (ready s = READY \<and> falsy_url b \<and> falsy_url t)"
    and hooks: "init_hooks = pre @ x # post" "\<forall>y\<in>set pre. h y = None" "h x = Some e"
    and quiet: "\<forall>c\<in>set (errorCallbacks s). error_raises cbs c e = None"
  shows "initialize cbs None h b t None None s =
    (s\<lparr>ready := NOT_READY, successCallbacks := [], errorCallbacks := [],
       trace := trace s @ [DataInitialize b t, ApiFunctionInitialize False] @
                map Hook (pre @ [x]) @ map (\<lambda>c. ErrorCallback c e) (errorCallbacks s)\<rparr>,
     None)"
proof -
  from nf have nf': "ready s \<noteq> READY \<or> \<not> falsy_url b \<or> \<not> falsy_url t" by blast
  show ?thesis
    using quiet
    by (simp add: initialize_sync_unfold[OF nf'] initializationSuccess_def hooks(1)
           run_hooks_raise[OF hooks(2,3)] initializationFailure_def drain_error_quiet)
qed

text \<open>
  The first path on the fresh module: a load that throws \<^verbatim>\<open>boom\<close> leaves the state
  NOT_READY, and \<^verbatim>\<open>boom\<close> is thrown on to the caller.
\<close>

lemma sync_load_failure_on_fresh_module:
  "initialize quiet_callbacks (Some (Error ''boom'')) hooks_ok None None None None
     initial_state =
    (\<lparr>ready = NOT_READY, successCallbacks = [], errorCallbacks = [],
      trace = [DataInitialize None None, ApiFunctionInitialize False]\<rparr>,
     Some (Error ''boom''))"
  by (simp add: initialize_def initial_state_def falsy_url_def initializationFailure_def)

text \<open>
  C1. The claim does not hold of the code. On the fresh module, a synchronous
  \<^verbatim>\<open>ee.initialize()\<close> whose load succeeds and whose \<^verbatim>\<open>ee.Image.initialize()\<close> throws \<^verbatim>\<open>boom\<close>:
  the failure handler has run (state NOT_READY, both queues empty), and the call returns
  normally where the claim has it throw \<^verbatim>\<open>boom\<close> to the caller.
\<close>

theorem sync_hook_failure_returns_normally:
  "initialize quiet_callbacks None (image_hook_raises (Error ''boom'')) None None None None
     initial_state =
    (\<lparr>ready = NOT_READY, successCallbacks = [], errorCallbacks = [],
      trace = [DataInitialize None None, ApiFunctionInitialize False,
               Hook (TypeInitialize ''Image'')]\<rparr>, None) \<and>
   snd (initialize quiet_callbacks None (image_hook_raises (Error ''boom'')) None None None None
     initial_state) \<noteq> Some (Error ''boom'')"
  by (simp add: initialize_def initial_state_def falsy_url_def initializationSuccess_def
       init_hooks_def image_hook_raises_def initializationFailure_def)

subsection \<open>The invariant of the queues\<close>

lemma step_keeps_queues_empty:
  assumes nr: "never_raise cbs"
    and inv: "queues_empty_when_settled s"
    and rs: "case x of Reset \<Rightarrow> ready s \<noteq> LOADING | _ \<Rightarrow> True"
  shows "queues_empty_when_settled (step cbs s x)"
proof (cases x)
  case (Initialize load h b t sc ec)
  show ?thesis
  proof (cases "ready s = READY \<and> falsy_url b \<and> falsy_url t")
    case True
    then show ?thesis
      using inv Initialize
      by (auto simp: initialize_def queues_empty_when_settled_def split: option.splits)
  next
    case nf: False
    show ?thesis
    proof (cases sc)
      case (Some c)
      then have "ready (step cbs s x) = LOADING"
        using nf Initialize by (auto simp: initialize_def Let_def split: option.splits)
      then show ?thesis by (simp add: queues_empty_when_settled_def)
    next
      case None
      show ?thesis
      proof (cases ec)
        case (Some e)
        then show ?thesis using nf None inv Initialize by (simp add: initialize_def)
      next
        case ecn: None
        obtain s' r where i: "initialize cbs load h b t None None s = (s', r)"
          by (cases "initialize cbs load h b t None None s")
        from initialize_sync_quiet[OF nr _ i] nf
        have "successCallbacks s' = [] \<and> errorCallbacks s' = []" by blast
        then show ?thesis
          using Initialize None ecn i by (simp add: queues_empty_when_settled_def)
      qed
    qed
  qed
next
  case Reset
  then show ?thesis
    using inv rs by (cases "ready s") (auto simp: reset_def queues_empty_when_settled_def)
next
  case (LoadSucceeded h)
  obtain s' r where i: "initializationSuccess cbs h s = (s', r)"
    by (cases "initializationSuccess cbs h s")
  show ?thesis
  proof (cases "ready s = LOADING")
    case True
    from initializationSuccess_quiet[OF nr True i] show ?thesis
      using LoadSucceeded i by (simp add: queues_empty_when_settled_def)
  next
    case False
    then show ?thesis using LoadSucceeded inv by (simp add: initializationSuccess_stale)
  qed
next
  case (LoadFailed e)
  obtain s' r where i: "initializationFailure cbs e s = (s', r)"
    by (cases "initializationFailure cbs e s")
  show ?thesis
  proof (cases "ready s = LOADING")
    case True
    from initializationFailure_quiet[OF nr True i] show ?thesis
      using LoadFailed i by (simp add: queues_empty_when_settled_def)
  next
    case False
    then show ?thesis using LoadFailed inv by (simp add: initializationFailure_stale)
  qed
qed

lemma run_keeps_queues_empty:
  "never_raise cbs \<Longrightarrow> queues_empty_when_settled s \<Longrightarrow> resets_outside_loading cbs s xs \<Longrightarrow>
   queues_empty_when_settled (run cbs s xs)"
proof (induction xs arbitrary: s)
  case Nil
  then show ?case by simp
next
  case (Cons x xs)
  from Cons.prems have "queues_empty_when_settled (step cbs s x)"
    by (intro step_keeps_queues_empty) auto
  with Cons show ?case by simp
qed

text \<open>
  C2, as amended. From the module as loaded, after any sequence of \<^verbatim>\<open>ee.initialize\<close>
  calls, \<^verbatim>\<open>ee.reset\<close> calls and completions of asynchronous loads in which no callback
  throws and \<^verbatim>\<open>ee.reset\<close> is never called in state LOADING: whenever the state is NOT_READY
  or READY, both queues are empty.
\<close>

theorem queues_empty_unless_reset_while_loading:
  assumes "never_raise cbs"
    and "resets_outside_loading cbs initial_state xs"
  shows "queues_empty_when_settled (run cbs initial_state xs)"
  using assms
  by (intro run_keeps_queues_empty) (simp_all add: queues_empty_when_settled_def initial_state_def)

theorem queues_empty_unless_reset_while_loading_witness:
  "never_raise quiet_callbacks \<and>
   resets_outside_loading quiet_callbacks initial_state
     [Initialize None hooks_ok None None (Some 0) (Some 1), LoadSucceeded hooks_ok, Reset] \<and>
   queues_empty_when_settled (run quiet_callbacks initial_state
     [Initialize None hooks_ok None None (Some 0) (Some 1), LoadSucceeded hooks_ok, Reset]) \<and>
   ready (run quiet_callbacks initial_state
     [Initialize None hooks_ok None None (Some 0) (Some 1), LoadSucceeded hooks_ok, Reset])
     = NOT_READY \<and>
   successCallbacks (run quiet_callbacks initial_state
     [Initialize None hooks_ok None None (Some 0) (Some 1), LoadSucceeded hooks_ok, Reset])
     = []"
proof -
  have a: "resets_outside_loading quiet_callbacks initial_state
     [Initialize None hooks_ok None None (Some 0) (Some 1), LoadSucceeded hooks_ok, Reset]"
    by code_simp
  have b: "ready (run quiet_callbacks initial_state
     [Initialize None hooks_ok None None (Some 0) (Some 1), LoadSucceeded hooks_ok, Reset])
     = NOT_READY"
    by code_simp
  from queues_empty_unless_reset_while_loading[OF never_raise_quiet_callbacks a]
    never_raise_quiet_callbacks a b
  show ?thesis by (simp add: queues_empty_when_settled_def)
qed

text \<open>
  C2 as stated fails: \<^verbatim>\<open>ee.reset\<close> assigns \<^verbatim>\<open>ee.ready_\<close> and leaves the two queues alone.
  An asynchronous \<^verbatim>\<open>ee.initialize(null, null, c0)\<close> followed by \<^verbatim>\<open>ee.reset()\<close> before the
  load completes: the state is NOT_READY and \<open>c0\<close> is still queued.
\<close>

theorem reset_while_loading_keeps_queue:
  "ready (run quiet_callbacks initial_state
            [Initialize None hooks_ok None None (Some 0) None, Reset]) = NOT_READY \<and>
   successCallbacks (run quiet_callbacks initial_state
            [Initialize None hooks_ok None None (Some 0) None, Reset]) = [0] \<and>
   \<not> queues_empty_when_settled (run quiet_callbacks initial_state
            [Initialize None hooks_ok None None (Some 0) None, Reset])"
  by (simp add: queues_empty_when_settled_def initialize_def initial_state_def falsy_url_def
        reset_def)

text \<open>
  The other condition is needed as well: a success callback that throws ends the loop of
  lines 286-290 (comment of lines 287-288), and the callbacks behind it stay queued in state
  READY.
\<close>

lemma raising_callback_keeps_queue:
  "ready (run callback_0_raises initial_state
            [Initialize None hooks_ok None None (Some 0) None,
             Initialize None hooks_ok None None (Some 1) None,
             LoadSucceeded hooks_ok]) = READY \<and>
   successCallbacks (run callback_0_raises initial_state
            [Initialize None hooks_ok None None (Some 0) None,
             Initialize None hooks_ok None None (Some 1) None,
             LoadSucceeded hooks_ok]) = [1]"
  by code_simp
section \<open>Properties of the class generator\<close>

text \<open>
  The loop over the blacklist looks up the indices of the array, not its elements: the
  name \<^verbatim>\<open>List\<close> survives it.
\<close>

lemma decimal_0: "decimal 0 = ''0''"
  by code_simp

lemma for_in_array_single: "for_in_array [v] = [''0'']"
  by (simp add: for_in_array_def decimal_0)

lemma for_in_array_blacklist: "for_in_array blacklist = [''0'']"
  by (simp add: blacklist_def for_in_array_single)

lemma blacklist_loop_keeps_List:
  "''List'' \<in> set names \<Longrightarrow> ''List'' \<in> set (delete_keys (for_in_array blacklist) names)"
  by (simp add: for_in_array_blacklist)

text \<open>The order of the visit changes no key, and a single name is visited as it is.\<close>

lemma for_in_keys_set: "set (for_in_keys ks) = set ks"
  by (auto simp: for_in_keys_def)

lemma for_in_keys_List: "for_in_keys [''List''] = [''List'']"
  by (simp add: for_in_keys_def is_array_index_def)

text \<open>What the two loops over the catalog and over the names keep and add.\<close>

lemma set_key_mono: "k \<in> set ks \<Longrightarrow> k \<in> set (set_key j ks)"
  by (simp add: set_key_def)

lemma set_key_adds: "k \<noteq> ''__proto__'' \<Longrightarrow> k \<in> set (set_key k ks)"
  by (simp add: set_key_def)

lemma collect_names_mono:
  "collect_names sigs (ns, rs) = (ns', rs') \<Longrightarrow>
     (k \<in> set ns \<longrightarrow> k \<in> set ns') \<and> (k \<in> set rs \<longrightarrow> k \<in> set rs')"
proof (induction sigs arbitrary: ns rs)
  case Nil
  then show ?case by simp
next
  case (Cons a sigs)
  obtain sig s where a: "a = (sig, s)" by (cases a)
  from Cons.prems Cons.IH show ?case
    unfolding a by (fastforce simp: set_key_mono split: if_splits)
qed

lemma collect_names_finds:
  assumes "collect_names sigs (ns, rs) = (ns', rs')" and "(sig, s) \<in> set sigs"
  shows "(CHR ''.'' \<in> set sig \<and> takeWhile (\<lambda>c. c \<noteq> CHR ''.'') sig \<noteq> ''__proto__'' \<longrightarrow>
            takeWhile (\<lambda>c. c \<noteq> CHR ''.'') sig \<in> set ns') \<and>
         (strip_type_info (returns s) \<noteq> ''__proto__'' \<longrightarrow> strip_type_info (returns s) \<in> set rs')"
  using assms
proof (induction sigs arbitrary: ns rs)
  case Nil
  then show ?case by simp
next
  case (Cons a sigs)
  obtain sig0 s0 where a: "a = (sig0, s0)" by (cases a)
  let ?ns1 = "if CHR ''.'' \<in> set sig0
        then set_key (takeWhile (\<lambda>c. c \<noteq> CHR ''.'') sig0) ns else ns"
  let ?rs1 = "set_key (strip_type_info (returns s0)) rs"
  from Cons.prems(1) have c: "collect_names sigs (?ns1, ?rs1) = (ns', rs')"
    by (simp add: a)
  show ?case
  proof (cases "(sig, s) = a")
    case True
    then have e: "sig0 = sig" "s0 = s" using a by simp_all
    from collect_names_mono[OF c, of "takeWhile (\<lambda>c. c \<noteq> CHR ''.'') sig"]
         collect_names_mono[OF c, of "strip_type_info (returns s)"]
    show ?thesis
      by (auto simp: e set_key_adds)
  next
    case False
    with Cons.prems(2) have "(sig, s) \<in> set sigs" by simp
    from Cons.IH[OF c this] show ?thesis .
  qed
qed

lemma create_classes_keeps_generated:
  "k \<in> set (generatedClasses r) \<Longrightarrow> k \<in> set (generatedClasses (create_classes x rts names r))"
  by (induction names arbitrary: r) auto

lemma create_classes_keeps_entry:
  "exportedEE r k = Some e \<Longrightarrow> exportedEE (create_classes x rts names r) k = Some e"
proof (induction names arbitrary: r)
  case Nil
  then show ?case by simp
next
  case (Cons n names)
  have "exportedEE (if key_in n rts \<and> exportedEE r n = None
          then r\<lparr>exportedEE := (exportedEE r)(n \<mapsto> makeClass x n),
                 generatedClasses := generatedClasses r @ [n]\<rparr>
          else r) k = Some e"
    using Cons.prems by auto
  from Cons.IH[OF this] show ?case by simp
qed

lemma create_classes_generates:
  "k \<in> set names \<Longrightarrow> key_in k rts \<Longrightarrow> exportedEE r k = None \<Longrightarrow>
   k \<in> set (generatedClasses (create_classes x rts names r)) \<and>
   exportedEE (create_classes x rts names r) k = Some (makeClass x k)"
proof (induction names arbitrary: r)
  case Nil
  then show ?case by simp
next
  case (Cons n names)
  show ?case
  proof (cases "n = k")
    case True
    with Cons.prems show ?thesis
      by (simp add: create_classes_keeps_generated create_classes_keeps_entry)
  next
    case False
    with Cons.prems Cons.IH show ?thesis by auto
  qed
qed

text \<open>
  Whatever the catalog and the collaborators: when \<^verbatim>\<open>List\<close> is the prefix of a function
  name and the stripped return type of a function, and the registry has no entry of that
  name, the generator registers a generated class \<^verbatim>\<open>List\<close>.
\<close>

lemma List_generated_whenever_eligible:
  assumes "(sig, s) \<in> set signatures" and "takeWhile (\<lambda>c. c \<noteq> CHR ''.'') sig = ''List''"
    and "CHR ''.'' \<in> set sig"
    and "(sig', s') \<in> set signatures" and "strip_type_info (returns s') = ''List''"
    and "exportedEE r ''List'' = None"
  shows "''List'' \<in> set (generatedClasses (initializeGeneratedClasses x signatures r)) \<and>
         exportedEE (initializeGeneratedClasses x signatures r) ''List'' = Some (makeClass x ''List'')"
proof -
  obtain ns rs where c: "collect_names signatures ([], []) = (ns, rs)"
    by (cases "collect_names signatures ([], [])")
  from collect_names_finds[OF c assms(1)] assms(2,3) have "''List'' \<in> set ns" by simp
  then have n: "''List'' \<in> set (for_in_keys (delete_keys (for_in_array blacklist) ns))"
    unfolding for_in_keys_set by (rule blacklist_loop_keeps_List)
  from collect_names_finds[OF c assms(4)] assms(5) have "''List'' \<in> set rs" by simp
  then have k: "key_in ''List'' rs" by (simp add: key_in_def)
  from create_classes_generates[OF n k assms(6)] show ?thesis
    by (simp add: initializeGeneratedClasses_def c)
qed

text \<open>
  C3. The claim does not hold of the code. With the catalog of \<^verbatim>\<open>List.sequence\<close>
  (returning \<^verbatim>\<open>List\<close>) and \<^verbatim>\<open>List.map\<close> (returning \<^verbatim>\<open>List<Object>\<close>) and a registry that has
  no entry \<^verbatim>\<open>List\<close>, the generator registers a generated class under the blacklisted name
  \<^verbatim>\<open>List\<close> and records the name in \<^verbatim>\<open>ee.generatedClasses_\<close>.
\<close>

theorem blacklisted_List_is_generated:
  "''List'' \<in> set blacklist \<and>
   sample_exportedEE ''List'' = None \<and>
   collect_names list_catalog ([], []) = ([''List''], [''List'']) \<and>
   generatedClasses (initializeGeneratedClasses sample_ext list_catalog sample_registry) =
     [''List''] \<and>
   exportedEE (initializeGeneratedClasses sample_ext list_catalog sample_registry) ''List'' =
     Some (makeClass sample_ext ''List'')"
  by (simp add: blacklist_def sample_exportedEE_def initializeGeneratedClasses_def
        list_catalog_def set_key_def line_terminator_def for_in_array_blacklist[unfolded blacklist_def]
        for_in_keys_List sample_registry_def key_in_def)
section \<open>Properties of the type promoter\<close>

subsection \<open>The branches of the switch\<close>

lemma promote_null: "promote x ee JNull klass = Inr JNull"
  by (simp add: promote_def)

lemma promote_undefined: "promote x ee JUndefined klass = Inr JUndefined"
  by (simp add: promote_def)

lemma promote_outside_table:
  "klass \<notin> set promotion_table \<Longrightarrow> arg \<noteq> JNull \<Longrightarrow> arg \<noteq> JUndefined \<Longrightarrow>
   promote x ee arg klass = promote_default ee arg klass"
  by (simp add: promote_def promotion_table_def)

lemma promote_Image:
  "arg \<noteq> JNull \<Longrightarrow> arg \<noteq> JUndefined \<Longrightarrow> promote x ee arg ''Image'' = obj_result (new_Image x arg)"
  by (simp add: promote_def)

lemma promote_ImageCollection:
  "arg \<noteq> JNull \<Longrightarrow> arg \<noteq> JUndefined \<Longrightarrow>
   promote x ee arg ''ImageCollection'' = obj_result (new_ImageCollection x arg)"
  by (simp add: promote_def)

lemma promote_Feature:
  "arg \<noteq> JNull \<Longrightarrow> arg \<noteq> JUndefined \<Longrightarrow>
   promote x ee arg ''Feature'' =
     (if instanceOf arg ''Collection'' then
        (case obj_result (ApiFunction_call x ''Collection.geometry'' [arg]) of
           Inl e \<Rightarrow> Inl e | Inr g \<Rightarrow> obj_result (ApiFunction_call x ''Feature'' [g]))
      else obj_result (new_Feature x arg))"
  by (simp add: promote_def)

lemma promote_EEObject:
  "arg \<noteq> JNull \<Longrightarrow> arg \<noteq> JUndefined \<Longrightarrow>
   promote x ee arg ''EEObject'' =
     (if instanceOf arg ''Collection'' then
        (case obj_result (ApiFunction_call x ''Collection.geometry'' [arg]) of
           Inl e \<Rightarrow> Inl e | Inr g \<Rightarrow> obj_result (ApiFunction_call x ''Feature'' [g]))
      else if instanceOf arg ''Image'' then Inr arg
      else obj_result (new_Feature x arg))"
  by (simp add: promote_def)

lemma promote_Geometry:
  "arg \<noteq> JNull \<Longrightarrow> arg \<noteq> JUndefined \<Longrightarrow>
   promote x ee arg ''Geometry'' =
     (if instanceOf arg ''FeatureCollection''
      then obj_result (ApiFunction_call x ''Collection.geometry'' [arg])
      else obj_result (new_Geometry x arg))"
  by (simp add: promote_def)


lemma promote_Filter:
  "arg \<noteq> JNull \<Longrightarrow> arg \<noteq> JUndefined \<Longrightarrow> promote x ee arg ''Filter'' = obj_result (new_Filter x arg)"
  by (simp add: promote_def)



lemma promote_Date:
  "promote x ee arg ''Date'' =
     (if isString arg \<or> isNumber arg then Inr (JDate arg)
      else if instanceOf arg ''ComputedObject'' then
        (case ApiFunction_lookup x ''Date'' of
           Inl e \<Rightarrow> Inl e
         | Inr func \<Rightarrow>
             (case promoteArgs_nameArgs x func [arg] of
                Inl e \<Rightarrow> Inl e
              | Inr args \<Rightarrow> Inr (new_ComputedObject func args)))
      else Inr arg)"
  by (auto simp: promote_def)


lemma promote_String:
  "arg \<noteq> JNull \<Longrightarrow> arg \<noteq> JUndefined \<Longrightarrow>
   promote x ee arg ''String'' =
     (if Types_isString x arg \<or> instanceOf arg ''String'' \<or>
         instanceOf arg ''ComputedObject'' \<or> Types_isVarOfType_String x arg
      then obj_result (new_String x arg)
      else Inr arg)"
  by (simp add: promote_def)


subsection \<open>The default branch\<close>

text \<open>
  C8, as amended. For a target name outside the fixed rules: when the name has a class
  entry and the value is truthy (neither null, undefined, false, 0, NaN nor the empty
  string), an instance of the class is returned as it is, a string \<open>s\<close> gives the outcome
  of calling the static member \<open>s\<close> of the class without arguments, or the error
  \<^verbatim>\<open>Unknown algorithm: klass.s\<close> when the class has no such member, and any other value is
  passed to the constructor; when the name has no entry, or the value is falsy, the value
  is returned as it is.
\<close>

theorem default_branch_promotion:
  assumes "klass \<notin> set promotion_table"
  shows "(ee klass = Some (Klass k) \<and> truthy arg \<longrightarrow>
            (instanceOf arg klass \<longrightarrow> promote x ee arg klass = Inr arg) \<and>
            (\<forall>s outcome. arg = JStr s \<and> members k s = Some outcome \<longrightarrow>
               promote x ee arg klass = outcome) \<and>
            (\<forall>s. arg = JStr s \<and> members k s = None \<longrightarrow>
               promote x ee arg klass =
                 Inl (Error (''Unknown algorithm: '' @ klass @ ''.'' @ s))) \<and>
            (\<not> instanceOf arg klass \<and> \<not> isString arg \<longrightarrow>
               promote x ee arg klass = construct k arg)) \<and>
         (ee klass = None \<or> \<not> truthy arg \<longrightarrow> promote x ee arg klass = Inr arg)"
proof (cases "arg = JNull \<or> arg = JUndefined")
  case True
  then show ?thesis by (auto simp: promote_null promote_undefined)
next
  case False
  then have "promote x ee arg klass = promote_default ee arg klass"
    using assms by (simp add: promote_outside_table)
  then show ?thesis
    by (cases arg) (auto simp: promote_default_def unknown_algorithm_def split: option.splits)
qed

theorem default_branch_promotion_witness:
  "''Kernel'' \<notin> set promotion_table \<and> ''Projection'' \<notin> set promotion_table \<and>
   sample_generated ''Kernel'' = Some (makeClass sample_ext ''Kernel'') \<and>
   sample_generated ''Projection'' = None \<and>
   promote sample_ext sample_generated (JStr ''gaussian'') ''Kernel'' =
     sample_call ''Kernel.gaussian'' [] \<and>
   promote sample_ext sample_generated (JStr ''pi'') ''Kernel'' =
     Inl (Error ''Unknown algorithm: Kernel.pi'') \<and>
   promote sample_ext sample_generated (JNum 5) ''Kernel'' =
     Inr (JObj [''Kernel'', ''ComputedObject'']
            [(''func'', sample_function ''Kernel''), (''args'', sample_args [JNum 5])]) \<and>
   promote sample_ext sample_generated
     (JObj [''Kernel'', ''ComputedObject''] [(''func'', JNull), (''args'', JNull)]) ''Kernel'' =
     Inr (JObj [''Kernel'', ''ComputedObject''] [(''func'', JNull), (''args'', JNull)]) \<and>
   promote sample_ext sample_generated (JNum 5) ''Projection'' = Inr (JNum 5) \<and>
   promote sample_ext sample_generated (JNum 0) ''Kernel'' = Inr (JNum 0)"
proof -
  let ?k = "\<lparr>members = importApi sample_ext ''Kernel'',
              construct = (\<lambda>v. target_new sample_ext ''Kernel'' [v])\<rparr>"
  have t: "''Kernel'' \<notin> set promotion_table" "''Projection'' \<notin> set promotion_table"
    by (simp_all add: promotion_table_def)
  have e: "sample_generated ''Kernel'' = Some (Klass ?k)" "sample_generated ''Projection'' = None"
    by (simp_all add: sample_generated_def sample_exportedEE_def makeClass_def)
  note d = default_branch_promotion[of _ sample_generated ?k _ sample_ext]
  from d[OF t(1), of "JStr ''gaussian''"] d[OF t(1), of "JStr ''pi''"]
    d[OF t(1), of "JNum 5"] d[OF t(1), of "JNum 0"] d[OF t(2), of "JNum 5"]
    d[OF t(1), of "JObj [''Kernel'', ''ComputedObject''] [(''func'', JNull), (''args'', JNull)]"]
    t e
  show ?thesis
    by (simp add: makeClass_def sample_ext_def sample_importApi_def target_new_def
          target_result_def sample_call_def sample_call_object_def obj_result_def
          object_value_def sample_return_classes_def function_members_def)
qed

text \<open>
  C8 as stated fails on \<open>non-null\<close>: the guard of line 424 is the truthiness of the
  argument. With the hand-written class \<^verbatim>\<open>Number\<close> registered, the number 0, which is
  neither null nor an instance nor a string, is returned as it is where the constructor
  would give an \<^verbatim>\<open>ee.Number\<close>, and the empty string is returned as it is where no member of
  that name exists.
\<close>

theorem falsy_value_is_not_promoted:
  "''Number'' \<notin> set promotion_table \<and>
   sample_exportedEE ''Number'' = Some (hand_written ''Number'' [''ComputedObject'']) \<and>
   JNum 0 \<noteq> JNull \<and> JNum 0 \<noteq> JUndefined \<and>
   \<not> instanceOf (JNum 0) ''Number'' \<and> \<not> isString (JNum 0) \<and>
   promote sample_ext sample_exportedEE (JNum 0) ''Number'' = Inr (JNum 0) \<and>
   wrap ''Number'' [''ComputedObject''] (JNum 0) =
     Inr (JObj [''Number'', ''ComputedObject'']
            [(''func'', JStr ''Number''), (''args'', JObj [] [(''value'', JNum 0)])]) \<and>
   promote sample_ext sample_exportedEE (JNum 0) ''Number'' \<noteq>
     wrap ''Number'' [''ComputedObject''] (JNum 0) \<and>
   promote sample_ext sample_exportedEE (JStr []) ''Number'' = Inr (JStr [])"
proof -
  have e: "sample_exportedEE ''Number'' = Some (hand_written ''Number'' [''ComputedObject''])"
    by (simp add: sample_exportedEE_def)
  show ?thesis
    by (simp add: promotion_table_def promote_def promote_default_def e wrap_def)
qed
subsection \<open>Promoting twice\<close>


text \<open>What a constructor or a call returns is an object.\<close>

lemma obj_result_Inr:
  "obj_result outcome = Inr r \<Longrightarrow> \<exists>ob. outcome = Inr ob \<and> r = JObj (fst ob) (snd ob)"
  by (cases outcome) (simp_all add: obj_result_def object_value_def)

lemma obj_result_object:
  "obj_result outcome = Inr r \<Longrightarrow>
   \<not> isNumber r \<and> \<not> isString r \<and> r \<noteq> JNull \<and> r \<noteq> JUndefined"
  by (auto dest: obj_result_Inr)


lemma decided_targets_in_table: "klass \<in> set decided_targets \<Longrightarrow> klass \<in> set promotion_table"
  by (auto simp: decided_targets_def promotion_table_def)










text \<open>
  The rules of \<^verbatim>\<open>Image\<close>, \<^verbatim>\<open>ImageCollection\<close> and \<^verbatim>\<open>Filter\<close> hand every value that is neither
  null nor undefined to the constructor: the second promotion is the constructor applied to
  its own result. Whether that is the result again is the constructor's to say; the rules
  of \<^verbatim>\<open>Feature\<close>, \<^verbatim>\<open>EEObject\<close>, \<^verbatim>\<open>Geometry\<close> and \<^verbatim>\<open>String\<close> end in a constructor or a call in
  the same way.
\<close>

lemma second_promotion_is_constructor:
  assumes "promote x ee arg klass = Inr r" and "arg \<noteq> JNull" and "arg \<noteq> JUndefined"
  shows "(klass = ''Image'' \<longrightarrow> promote x ee r klass = obj_result (new_Image x r)) \<and>
         (klass = ''ImageCollection'' \<longrightarrow>
            promote x ee r klass = obj_result (new_ImageCollection x r)) \<and>
         (klass = ''Filter'' \<longrightarrow> promote x ee r klass = obj_result (new_Filter x r))"
proof -
  have "klass = ''Image'' \<or> klass = ''ImageCollection'' \<or> klass = ''Filter'' \<Longrightarrow>
        r \<noteq> JNull \<and> r \<noteq> JUndefined"
    using assms
    by (auto simp: promote_Image promote_ImageCollection promote_Filter dest: obj_result_object)
  then show ?thesis
    by (auto simp: promote_Image promote_ImageCollection promote_Filter)
qed

text \<open>
  With the sample constructor, which returns an image as it is, the second promotion to
  \<^verbatim>\<open>Image\<close> returns the result of the first; with a constructor that makes a new object of
  every value, it does not.
\<close>

lemma Image_twice_is_the_constructors:
  "promote sample_ext sample_generated (JNum 5) ''Image'' =
     Inr (JObj [''Image'', ''Element'', ''ComputedObject'']
            [(''func'', JStr ''Image''), (''args'', JObj [] [(''value'', JNum 5)])]) \<and>
   promote sample_ext sample_generated
     (JObj [''Image'', ''Element'', ''ComputedObject'']
        [(''func'', JStr ''Image''), (''args'', JObj [] [(''value'', JNum 5)])]) ''Image'' =
     Inr (JObj [''Image'', ''Element'', ''ComputedObject'']
            [(''func'', JStr ''Image''), (''args'', JObj [] [(''value'', JNum 5)])]) \<and>
   promote (sample_ext\<lparr>new_Image := (\<lambda>v. Inr ([''Image''], [(''value'', v)]))\<rparr>)
     sample_generated (JNum 5) ''Image'' =
     Inr (JObj [''Image''] [(''value'', JNum 5)]) \<and>
   promote (sample_ext\<lparr>new_Image := (\<lambda>v. Inr ([''Image''], [(''value'', v)]))\<rparr>)
     sample_generated (JObj [''Image''] [(''value'', JNum 5)]) ''Image'' =
     Inr (JObj [''Image''] [(''value'', JObj [''Image''] [(''value'', JNum 5)])])"
  by (simp add: promote_def sample_ext_def wrap_object_def obj_result_def object_value_def)

text \<open>
  Whatever the collaborators, a computed object promoted to \<^verbatim>\<open>Date\<close> gives a computed
  object, which the second promotion hands to the argument promotion of the \<^verbatim>\<open>Date\<close>
  algorithm again.
\<close>

lemma Date_of_computed_is_computed:
  assumes "instanceOf arg ''ComputedObject''" and "promote x ee arg ''Date'' = Inr r"
  shows "instanceOf r ''ComputedObject'' \<and>
         promote x ee r ''Date'' =
           (case ApiFunction_lookup x ''Date'' of
              Inl e \<Rightarrow> Inl e
            | Inr func \<Rightarrow>
                (case promoteArgs_nameArgs x func [r] of
                   Inl e \<Rightarrow> Inl e
                 | Inr args \<Rightarrow> Inr (new_ComputedObject func args)))"
proof -
  from assms(1) have a: "\<not> isString arg" "\<not> isNumber arg" by (cases arg; simp)+
  from assms a have i: "instanceOf r ''ComputedObject''"
    by (auto simp: promote_Date new_ComputedObject_def split: sum.splits)
  then have "\<not> isString r" "\<not> isNumber r" by (cases r; simp)+
  with i show ?thesis by (simp add: promote_Date)
qed





end
